theory Spec2Isabelle
  imports Main
begin

section \<open>Messages and the log queue\<close>

text \<open>
  \<^verbatim>\<open>auto_arch.py\<close> reports everything through one global queue \<^verbatim>\<open>log\<close> of
  \<^verbatim>\<open>Message\<close> objects. The queue is unbounded, so \<^verbatim>\<open>log.put(..., block=False)\<close>
  always appends; the model threads the queue through every function that writes to it.
\<close>

datatype Message_Level = Level_success | Level_error | Level_warning | Level_info | Level_verbose

record Message =
  raw :: string
  level :: Message_Level

type_synonym log = "Message list"

definition success :: "string \<Rightarrow> log \<Rightarrow> log" where
  "success msg q = q @ [\<lparr>raw = msg, level = Level_success\<rparr>]"

definition error :: "string \<Rightarrow> log \<Rightarrow> log" where
  "error msg q = q @ [\<lparr>raw = ''  [Error] '' @ msg @ ''.'', level = Level_error\<rparr>]"

definition warning :: "string \<Rightarrow> log \<Rightarrow> log" where
  "warning msg q = q @ [\<lparr>raw = ''[Warning] '' @ msg @ ''.'', level = Level_warning\<rparr>]"

definition info :: "string \<Rightarrow> log \<Rightarrow> log" where
  "info msg q = q @ [\<lparr>raw = ''   [Info] '' @ msg @ ''.'', level = Level_info\<rparr>]"

definition verbose :: "string \<Rightarrow> log \<Rightarrow> log" where
  "verbose msg q = q @ [\<lparr>raw = ''[Verbose] '' @ msg @ ''.'', level = Level_verbose\<rparr>]"


section \<open>Python values and strings\<close>

text \<open>
  The values a field can hold: \<^verbatim>\<open>None\<close>, a \<^verbatim>\<open>bool\<close>, an \<^verbatim>\<open>int\<close> or a \<^verbatim>\<open>str\<close>.
  A JSON document can also carry a float, an array or an object as a value; the program
  only ever takes \<^verbatim>\<open>str()\<close> of such a value or stores it, so \<open>PyOther\<close> stands for any
  of them and carries the text that \<^verbatim>\<open>str()\<close> gives.

  A \<^verbatim>\<open>str\<close> is a list of code points. HOL's \<open>char\<close> has 256 values, so the model covers
  the code points U+0000 to U+00FF; the character classes below are Python's for that
  range.
\<close>

datatype pyval = PyNone | PyBool bool | PyInt int | PyStr string | PyOther string

fun str_nat :: "nat \<Rightarrow> string" where
  "str_nat n =
     (if n < 10 then [''0123456789'' ! n]
      else str_nat (n div 10) @ [''0123456789'' ! (n mod 10)])"

definition str_int :: "int \<Rightarrow> string" where
  "str_int i = (if i < 0 then CHR ''-'' # str_nat (nat (- i)) else str_nat (nat i))"

fun py_str :: "pyval \<Rightarrow> string" where
  "py_str PyNone = ''None''"
| "py_str (PyBool b) = (if b then ''True'' else ''False'')"
| "py_str (PyInt i) = str_int i"
| "py_str (PyStr s) = s"
| "py_str (PyOther s) = s"

definition code_in :: "char \<Rightarrow> nat \<Rightarrow> nat \<Rightarrow> bool" where
  "code_in c lo hi \<longleftrightarrow> lo \<le> of_char c \<and> of_char c \<le> hi"

definition ch_isdecimal :: "char \<Rightarrow> bool" where
  "ch_isdecimal c \<longleftrightarrow> code_in c 0x30 0x39"

definition ch_isnumeric :: "char \<Rightarrow> bool" where
  "ch_isnumeric c \<longleftrightarrow>
     code_in c 0x30 0x39 \<or> code_in c 0xB2 0xB3 \<or> code_in c 0xB9 0xB9 \<or> code_in c 0xBC 0xBE"

definition ch_isalpha :: "char \<Rightarrow> bool" where
  "ch_isalpha c \<longleftrightarrow>
     code_in c 0x41 0x5A \<or> code_in c 0x61 0x7A \<or> code_in c 0xAA 0xAA \<or>
     code_in c 0xB5 0xB5 \<or> code_in c 0xBA 0xBA \<or> code_in c 0xC0 0xD6 \<or>
     code_in c 0xD8 0xF6 \<or> code_in c 0xF8 0xFF"

definition ch_isalnum :: "char \<Rightarrow> bool" where
  "ch_isalnum c \<longleftrightarrow> ch_isalpha c \<or> ch_isnumeric c"

definition ch_isprintable :: "char \<Rightarrow> bool" where
  "ch_isprintable c \<longleftrightarrow> code_in c 0x20 0x7E \<or> code_in c 0xA1 0xAC \<or> code_in c 0xAE 0xFF"

definition ch_isascii :: "char \<Rightarrow> bool" where
  "ch_isascii c \<longleftrightarrow> code_in c 0x00 0x7F"

definition ch_isupper :: "char \<Rightarrow> bool" where
  "ch_isupper c \<longleftrightarrow> code_in c 0x41 0x5A \<or> code_in c 0xC0 0xD6 \<or> code_in c 0xD8 0xDE"

definition ch_islower :: "char \<Rightarrow> bool" where
  "ch_islower c \<longleftrightarrow>
     code_in c 0x61 0x7A \<or> code_in c 0xAA 0xAA \<or> code_in c 0xB5 0xB5 \<or>
     code_in c 0xBA 0xBA \<or> code_in c 0xDF 0xF6 \<or> code_in c 0xF8 0xFF"

text \<open>
  The \<^verbatim>\<open>str\<close> methods the validators call. \<^verbatim>\<open>isnumeric\<close> and \<^verbatim>\<open>isalnum\<close> are false on
  the empty string; \<^verbatim>\<open>isprintable\<close> and \<^verbatim>\<open>isascii\<close> are true on it; \<^verbatim>\<open>islower\<close> wants
  no uppercase character and at least one lowercase one.
\<close>

definition isnumeric :: "string \<Rightarrow> bool" where
  "isnumeric s \<longleftrightarrow> s \<noteq> [] \<and> list_all ch_isnumeric s"

definition isalnum :: "string \<Rightarrow> bool" where
  "isalnum s \<longleftrightarrow> s \<noteq> [] \<and> list_all ch_isalnum s"

definition isprintable :: "string \<Rightarrow> bool" where
  "isprintable s \<longleftrightarrow> list_all ch_isprintable s"

definition isascii :: "string \<Rightarrow> bool" where
  "isascii s \<longleftrightarrow> list_all ch_isascii s"

definition islower :: "string \<Rightarrow> bool" where
  "islower s \<longleftrightarrow> \<not> list_ex ch_isupper s \<and> list_ex ch_islower s"

definition remove_char :: "char \<Rightarrow> string \<Rightarrow> string" where
  \<comment> \<open>\<^verbatim>\<open>value.replace(c, "")\<close> for a one-character \<^verbatim>\<open>c\<close>\<close>
  "remove_char c s = filter (\<lambda>x. x \<noteq> c) s"

definition startswith :: "string \<Rightarrow> char \<Rightarrow> bool" where
  "startswith s c = (case s of [] \<Rightarrow> False | x # _ \<Rightarrow> x = c)"


section \<open>Field\<close>

text \<open>
  A validator takes the string form of a candidate value and answers with a \<^verbatim>\<open>bool\<close>;
  the ones that reject a value first put an error message on the log queue.
\<close>

type_synonym validator = "string \<Rightarrow> log \<Rightarrow> bool \<times> log"

definition default_validator :: validator where
  "default_validator _ q = (True, q)"

definition numeric_validator :: validator where
  "numeric_validator v q =
     (if \<not> isnumeric v then (False, error (''The given value is not numeric: '' @ v) q)
      else (True, q))"

definition boot_label_validator :: validator where
  "boot_label_validator v q =
     (if v = [] then (False, error ''Boot labels must contain at least one character'' q)
      else if \<not> (isprintable v \<and> isascii v) then
        (False, error ''Boot labels cannot contain non-printable or non-ascii characters'' q)
      else (True, q))"

definition hostname_validator :: validator where
  "hostname_validator v q =
     (if v = [] then (False, error ''Hostnames must contain at least one character'' q)
      else if length v > 64 then
        (False, error ''Hostnames cannot be longer than 64 characters'' q)
      else if \<not> (islower (remove_char CHR ''-'' v) \<and> isalnum (remove_char CHR ''-'' v)) then
        (False, error ''Hostnames may only contain lowercase letters, numbers, and hyphens'' q)
      else (True, q))"

definition name_validator :: validator where
  "name_validator v q =
     (if v = [] then (False, error ''Names must contain at least one character'' q)
      else if isnumeric v then (False, error ''Names cannot be entirely numeric'' q)
      else if startswith v CHR ''-'' then (False, error ''Names cannot start with a hyphen'' q)
      else if length v > 32 then
        (False, error ''Names cannot be longer than 32 characters'' q)
      else if \<not> isalnum (remove_char CHR ''_'' (remove_char CHR ''-'' v)) then
        (False, error ''Names may only contain letters, numbers, underscores, and hyphens'' q)
      else (True, q))"

definition password_validator :: validator where
  "password_validator v q =
     (if v = [] then (False, error ''Passwords must contain at least one character'' q)
      else if \<not> (isprintable v \<and> isascii v) then
        (False, error ''Passwords cannot contain non-printable or non-ascii characters'' q)
      else (True, q))"

text \<open>The second argument of \<^verbatim>\<open>Field(...)\<close>; it is stored and never read.\<close>

datatype field_types = T_bool | T_int | T_optional_str | T_str

record Field =
  f_value :: pyval
  f_types :: field_types
  f_validator :: validator

definition Field_init :: "pyval \<Rightarrow> field_types \<Rightarrow> validator \<Rightarrow> Field" where
  "Field_init default_value types v = \<lparr>f_value = default_value, f_types = types, f_validator = v\<rparr>"

definition Field_get :: "Field \<Rightarrow> pyval" where
  "Field_get f = f_value f"

definition Field_get_str :: "Field \<Rightarrow> string" where
  "Field_get_str f = (if f_value f = PyNone then [] else py_str (f_value f))"

definition Field_set :: "Field \<Rightarrow> pyval \<Rightarrow> log \<Rightarrow> bool \<times> Field \<times> log" where
  "Field_set f v q =
     (case f_validator f (py_str v) q of
        (True, q') \<Rightarrow> (True, f\<lparr>f_value := v\<rparr>, q')
      | (False, q') \<Rightarrow> (False, f, q'))"

definition field_validators :: "validator set" where
  \<comment> \<open>every validator a \<^verbatim>\<open>Field\<close> of the program is constructed with\<close>
  "field_validators =
     {default_validator, numeric_validator, boot_label_validator, hostname_validator,
      name_validator, password_validator}"


section \<open>Profile: ten shared Field objects\<close>

text \<open>
  The body of \<^verbatim>\<open>class Profile\<close> runs once, when the class is defined, and creates
  ten \<^verbatim>\<open>Field\<close> objects that it binds to class attributes. No other \<^verbatim>\<open>Field\<close> is ever
  constructed, so a reference is one of these ten allocation sites and the heap gives
  the current state of each object.
\<close>

datatype ref =
  R_network_install | R_min_device_bytes | R_device | R_boot_label | R_time_zone |
  R_hostname | R_root_password | R_username | R_user_password | R_sudo_group

type_synonym heap = "ref \<Rightarrow> Field"

fun initial_heap :: heap where
  "initial_heap R_network_install = Field_init (PyBool True) T_bool default_validator"
| "initial_heap R_min_device_bytes = Field_init (PyInt 10000000000) T_int numeric_validator"
| "initial_heap R_device = Field_init PyNone T_optional_str default_validator"
| "initial_heap R_boot_label = Field_init (PyStr ''Arch Linux'') T_str boot_label_validator"
| "initial_heap R_time_zone = Field_init (PyStr ''America/Denver'') T_str default_validator"
| "initial_heap R_hostname = Field_init (PyStr ''arch'') T_str hostname_validator"
| "initial_heap R_root_password = Field_init (PyStr ''root'') T_str password_validator"
| "initial_heap R_username = Field_init (PyStr ''main'') T_str name_validator"
| "initial_heap R_user_password = Field_init (PyStr ''main'') T_str password_validator"
| "initial_heap R_sudo_group = Field_init (PyStr ''wheel'') T_str name_validator"

definition Profile_class :: "(string \<times> ref) list" where
  \<comment> \<open>the class attributes that hold a \<^verbatim>\<open>Field\<close>, in the order of the class body\<close>
  "Profile_class =
     [(''network_install'', R_network_install), (''min_device_bytes'', R_min_device_bytes),
      (''device'', R_device), (''boot_label'', R_boot_label), (''time_zone'', R_time_zone),
      (''hostname'', R_hostname), (''root_password'', R_root_password),
      (''username'', R_username), (''user_password'', R_user_password),
      (''sudo_group'', R_sudo_group)]"

definition object_attrs :: "string list" where
  \<comment> \<open>the other attributes every instance of a dataclass has (CPython 3.11, \<^verbatim>\<open>dir()\<close>)\<close>
  "object_attrs =
     [''__class__'', ''__dataclass_fields__'', ''__dataclass_params__'', ''__delattr__'',
      ''__dict__'', ''__dir__'', ''__doc__'', ''__eq__'', ''__format__'', ''__ge__'',
      ''__getattribute__'', ''__getstate__'', ''__gt__'', ''__hash__'', ''__init__'',
      ''__init_subclass__'', ''__le__'', ''__lt__'', ''__match_args__'', ''__module__'',
      ''__ne__'', ''__new__'', ''__reduce__'', ''__reduce_ex__'', ''__repr__'',
      ''__setattr__'', ''__sizeof__'', ''__str__'', ''__subclasshook__'', ''__weakref__'']"

definition dataclass_fields :: "string list" where
  \<comment> \<open>\<^verbatim>\<open>@dataclass\<close> registers the annotated attributes of the class body; none is annotated\<close>
  "dataclass_fields = []"

text \<open>
  An instance has its own attribute dictionary, empty after \<^verbatim>\<open>Profile()\<close> (the generated
  \<^verbatim>\<open>__init__\<close> takes no argument and assigns nothing). Attribute lookup reads the
  instance dictionary first and the class after it.
\<close>

record Profile =
  instance_dict :: "string \<rightharpoonup> ref"

definition Profile_init :: Profile where
  "Profile_init = \<lparr>instance_dict = Map.empty\<rparr>"

datatype attr = Attr_field ref | Attr_other

definition getattr :: "Profile \<Rightarrow> string \<Rightarrow> attr option" where
  "getattr p key =
     (case instance_dict p key of
        Some r \<Rightarrow> Some (Attr_field r)
      | None \<Rightarrow>
          (case map_of Profile_class key of
             Some r \<Rightarrow> Some (Attr_field r)
           | None \<Rightarrow> if key \<in> set object_attrs then Some Attr_other else None))"

definition hasattr :: "Profile \<Rightarrow> string \<Rightarrow> bool" where
  "hasattr p key \<longleftrightarrow> getattr p key \<noteq> None"

definition setattr :: "Profile \<Rightarrow> string \<Rightarrow> ref \<Rightarrow> Profile" where
  "setattr p key r = p\<lparr>instance_dict := (instance_dict p)(key \<mapsto> r)\<rparr>"

definition shares_class_fields :: "Profile \<Rightarrow> bool" where
  \<comment> \<open>every entry of the instance dictionary is the class's own object of that name\<close>
  "shares_class_fields p \<longleftrightarrow>
     (\<forall>key r. instance_dict p key = Some r \<longrightarrow> map_of Profile_class key = Some r)"


section \<open>Dumping and loading a profile\<close>

text \<open>
  \<^verbatim>\<open>asdict(profile)\<close> has one entry per dataclass field, holding a copy of the attribute's
  value. \<^verbatim>\<open>dump_profile\<close> writes the \<^verbatim>\<open>get()\<close> of each entry as a JSON object; the
  argument \<open>writable\<close> says whether \<^verbatim>\<open>open(path, "w")\<close> and \<^verbatim>\<open>json.dump\<close> go through. The
  result holds the returned \<^verbatim>\<open>bool\<close>, the object written to the file (its items in
  order) and the log.
\<close>

definition asdict :: "Profile \<Rightarrow> heap \<Rightarrow> (string \<times> Field) list" where
  "asdict p h =
     List.map_filter
       (\<lambda>key. case getattr p key of Some (Attr_field r) \<Rightarrow> Some (key, h r) | _ \<Rightarrow> None)
       dataclass_fields"

definition dump_profile ::
  "Profile \<Rightarrow> string \<Rightarrow> bool \<Rightarrow> heap \<Rightarrow> log \<Rightarrow> bool \<times> (string \<times> pyval) list option \<times> log" where
  "dump_profile profile path writable h q =
     (let json_profile = map (\<lambda>(key, v). (key, Field_get v)) (asdict profile h)
      in if writable then (True, Some json_profile, q)
         else (False, None, error (''Failed to write the profile to '' @ path) q))"

text \<open>
  What \<^verbatim>\<open>load_profile\<close> finds at the path: nothing it can open and parse, a JSON value
  that is not an object (it has no \<^verbatim>\<open>items()\<close>), or an object, given by its items in
  order. Every exception raised inside the \<^verbatim>\<open>try\<close> ends in the bare \<^verbatim>\<open>except\<close>, which
  reports an error and returns \<^verbatim>\<open>None\<close>; what the loop has changed by then stays changed.
\<close>

datatype document = Unreadable | Toplevel pyval | Object "(string \<times> pyval) list"

datatype exn = TypeError | AttributeError | IndexError

fun load_items ::
  "(string \<times> pyval) list \<Rightarrow> Profile \<Rightarrow> heap \<Rightarrow> log \<Rightarrow> (exn + Profile) \<times> heap \<times> log" where
  "load_items [] profile h q = (Inr profile, h, q)"
| "load_items ((key, v) # rest) profile h q =
     (case getattr profile key of
        None \<Rightarrow> load_items rest profile h (warning (''Unrecognized field in profile: '' @ key) q)
      | Some Attr_other \<Rightarrow> (Inl AttributeError, h, q)
      | Some (Attr_field r) \<Rightarrow>
          (case Field_set (h r) v q of
             (True, f', q') \<Rightarrow> load_items rest (setattr profile key r) (h(r := f')) q'
           | (False, _, q') \<Rightarrow>
               (case v of
                  PyStr s \<Rightarrow>
                    load_items rest (setattr profile key r) h
                      (warning
                         (''The given value is invalid for the cooresponding field:''
                          @ [CHR 0x0A, CHR 0x09] @ ''field: '' @ key
                          @ [CHR 0x0A, CHR 0x09] @ ''value: '' @ s) q')
                | _ \<Rightarrow> (Inl TypeError, h, q'))))"

definition load_profile ::
  "string \<Rightarrow> document \<Rightarrow> heap \<Rightarrow> log \<Rightarrow> Profile option \<times> heap \<times> log" where
  "load_profile path doc h q =
     (let profile = Profile_init
      in case doc of
           Object items \<Rightarrow>
             (case load_items items profile h q of
                (Inr p, h', q') \<Rightarrow> (Some p, h', q')
              | (Inl e, h', q') \<Rightarrow>
                  (None, h', error (''Failed to read the profile from '' @ path) q'))
         | _ \<Rightarrow> (None, h, error (''Failed to read the profile from '' @ path) q))"


section \<open>The terminal session\<close>

text \<open>
  The terminal is known through the curses calls made on it: the model records them in
  order. Next to that record the world holds the log queue and the lines written to the
  log file, when one is open.
\<close>

datatype window = Screen | Border | Win

datatype ColorIndex =
  Color_normal | Color_highlight | Color_success | Color_error | Color_warning |
  Color_info | Color_verbose

datatype colour = COLOR_WHITE | COLOR_BLACK | COLOR_GREEN | COLOR_RED | COLOR_YELLOW | COLOR_CYAN

datatype curses_call =
    Initscr | Start_color | Init_pair ColorIndex colour colour | Bkgdset window ColorIndex
  | Noecho | Cbreak | Curs_set nat | Keypad bool | Clear window | Refresh window
  | Newwin window int int int int | Draw_border | Echo | Nocbreak | Endwin
  | Addstr string

record world =
  queue :: log
  log_file :: "string list option"
  calls :: "curses_call list"

definition do_calls :: "curses_call list \<Rightarrow> world \<Rightarrow> world" where
  "do_calls cs w = w\<lparr>calls := calls w @ cs\<rparr>"

definition get_next_log :: "world \<Rightarrow> Message option \<times> world" where
  "get_next_log w =
     (case queue w of
        [] \<Rightarrow> (None, w)
      | msg # rest \<Rightarrow>
          (Some msg,
           w\<lparr>queue := rest,
             log_file := map_option (\<lambda>file. file @ [raw msg @ [CHR 0x0A]]) (log_file w)\<rparr>))"

definition init_colors :: "curses_call list" where
  "init_colors =
     [Start_color,
      Init_pair Color_normal COLOR_WHITE COLOR_BLACK,
      Init_pair Color_highlight COLOR_BLACK COLOR_WHITE,
      Init_pair Color_success COLOR_GREEN COLOR_BLACK,
      Init_pair Color_error COLOR_RED COLOR_BLACK,
      Init_pair Color_warning COLOR_YELLOW COLOR_BLACK,
      Init_pair Color_info COLOR_CYAN COLOR_BLACK,
      Init_pair Color_verbose COLOR_WHITE COLOR_BLACK]"

text \<open>
  The attributes of a \<^verbatim>\<open>CursesApp\<close>. The window geometry is assigned only when the
  terminal is large enough, so these attributes are optional.
\<close>

record CursesApp =
  good :: bool
  clean :: bool
  lines :: "int option"
  cols :: "int option"
  line_origin :: "int option"
  col_origin :: "int option"

definition min_lines :: int where "min_lines = 12"
definition min_cols :: int where "min_cols = 44"
definition max_border_lines :: int where "max_border_lines = 3"
definition max_border_cols :: int where "max_border_cols = 10"

definition restore_calls :: "curses_call list" where
  "restore_calls = [Keypad False, Curs_set 1, Echo, Nocbreak, Endwin]"

definition cleanup :: "CursesApp \<Rightarrow> world \<Rightarrow> CursesApp \<times> world" where
  "cleanup self w =
     (let self1 = self\<lparr>good := False\<rparr>
      in if clean self1 = False then (self1\<lparr>clean := True\<rparr>, do_calls restore_calls w)
         else (self1, w))"

definition setup_calls :: "curses_call list" where
  "setup_calls =
     [Initscr] @ init_colors @
     [Bkgdset Screen Color_normal, Noecho, Cbreak, Curs_set 0, Keypad True,
      Clear Screen, Refresh Screen]"

text \<open>
  \<^verbatim>\<open>CursesApp.__init__\<close>, for a terminal of \<open>LINES\<close> by \<open>COLS\<close>. The origins are
  \<^verbatim>\<open>int((LINES - lines) / 2)\<close>; on the path that computes them the difference is never
  negative, so the truncated quotient is the integer quotient. The constructor also
  registers \<^verbatim>\<open>cleanup\<close> to run at exit.
\<close>

definition CursesApp_init :: "int \<Rightarrow> int \<Rightarrow> world \<Rightarrow> CursesApp \<times> world" where
  "CursesApp_init LINES COLS w =
     (let self = \<lparr>good = False, clean = False, lines = None, cols = None,
                  line_origin = None, col_origin = None\<rparr>;
          w1 = do_calls setup_calls w
      in if LINES < min_lines \<or> COLS < min_cols then
           (case cleanup self w1 of
              (self', w2) \<Rightarrow>
                (self',
                 w2\<lparr>queue :=
                      error (''Min dim: '' @ str_int min_lines @ ''x'' @ str_int min_cols)
                        (queue w2)\<rparr>))
         else
           (let l = (if LINES > max_border_lines * 2 + min_lines
                     then LINES - max_border_lines * 2 else min_lines);
                c = (if COLS > max_border_cols * 2 + min_cols
                     then COLS - max_border_cols * 2 else min_cols);
                lo = (LINES - l) div 2;
                co = (COLS - c) div 2;
                w2 = do_calls
                       [Newwin Border l c lo co,
                        Newwin Win (l - 2) (c - 4) (lo + 1) (co + 2),
                        Clear Border, Draw_border, Refresh Border, Clear Win, Refresh Win] w1
            in (self\<lparr>lines := Some l, cols := Some c, line_origin := Some lo,
                      col_origin := Some co, good := True\<rparr>, w2)))"


section \<open>Selecting from a list\<close>

text \<open>
  What the terminal sends while a primitive waits: a key, as \<^verbatim>\<open>getkey\<close> names it, or a
  \<^verbatim>\<open>curses.error\<close>. \<open>Curses_error n\<close> says that in the current pass of the loop the curses
  call number \<open>n\<close> (from 0) raises; when the pass draws fewer calls than that, it is
  \<^verbatim>\<open>getkey\<close> that raises. A primitive that finds no event left is waiting for a key.
\<close>

datatype event = Key string | Curses_error nat

datatype 'a outcome = Returned 'a | Raised exn | Blocked

datatype step = Call curses_call | Get_next_log

fun run_steps :: "nat option \<Rightarrow> step list \<Rightarrow> world \<Rightarrow> world" where
  "run_steps fail [] w = w"
| "run_steps fail (Get_next_log # ss) w = run_steps fail ss (snd (get_next_log w))"
| "run_steps fail (Call c # ss) w =
     (case fail of
        None \<Rightarrow> run_steps None ss (do_calls [c] w)
      | Some 0 \<Rightarrow> w
      | Some (Suc n) \<Rightarrow> run_steps (Some n) ss (do_calls [c] w))"

definition color_of :: "Message_Level \<Rightarrow> ColorIndex" where
  "color_of l =
     (case l of
        Level_success \<Rightarrow> Color_success
      | Level_error \<Rightarrow> Color_error
      | Level_warning \<Rightarrow> Color_warning
      | Level_info \<Rightarrow> Color_info
      | Level_verbose \<Rightarrow> Color_verbose)"

definition log_steps :: "log \<Rightarrow> step list" where
  \<comment> \<open>the loop \<^verbatim>\<open>while not log.empty()\<close>, for the messages queued when the pass starts\<close>
  "log_steps q =
     concat (map (\<lambda>msg. [Get_next_log, Call (Bkgdset Win (color_of (level msg))),
                          Call (Addstr (raw msg @ [CHR 0x0A])),
                          Call (Bkgdset Win Color_normal)]) q)"

definition item_steps :: "int \<Rightarrow> string list \<Rightarrow> step list" where
  "item_steps cursor_index items =
     concat (map (\<lambda>(this_index, item).
                    [Call (Addstr (if cursor_index = int this_index then ''===> '' else ''     '')),
                     Call (Addstr (item @ [CHR 0x0A]))])
                 (enumerate 0 items))"

definition select_frame :: "string \<Rightarrow> string list \<Rightarrow> string option \<Rightarrow> int \<Rightarrow> log \<Rightarrow> step list" where
  "select_frame prompt items headings cursor_index q =
     [Call (Clear Win), Call (Addstr (prompt @ [CHR 0x0A, CHR 0x0A]))] @
     (case headings of
        None \<Rightarrow> []
      | Some h \<Rightarrow> if h = [] then [] else [Call (Addstr (''     '' @ h @ [CHR 0x0A]))]) @
     item_steps cursor_index items @
     [Call (Addstr [CHR 0x0A])] @ log_steps q @ [Call (Refresh Win)]"

definition help_frame :: "step list" where
  "help_frame =
     [Call (Clear Win),
      Call (Addstr (''  down:  j / DOWN_ARROW'' @ [CHR 0x0A] @
                    ''    up:  k / UP_ARROW'' @ [CHR 0x0A] @
                    ''cancel:  q'' @ [CHR 0x0A] @
                    ''select:  ; / ENTER'')),
      Call (Refresh Win)]"

definition py_index :: "'a list \<Rightarrow> int \<Rightarrow> exn + 'a" where
  \<comment> \<open>\<^verbatim>\<open>xs[i]\<close>; the indices from \<^verbatim>\<open>-len(xs)\<close> to \<^verbatim>\<open>-1\<close> count from the end\<close>
  "py_index xs i =
     (if 0 \<le> i \<and> i < int (length xs) then Inr (xs ! nat i)
      else if i < 0 \<and> - int (length xs) \<le> i then Inr (xs ! nat (int (length xs) + i))
      else Inl IndexError)"

text \<open>
  The validator handed to \<^verbatim>\<open>select\<close> is called on the chosen item. The device validator
  opens a dialog of its own, so a validator may read events as well as write to the
  world.
\<close>

type_synonym select_validator =
  "string \<Rightarrow> event list \<Rightarrow> world \<Rightarrow> (exn + bool) \<times> event list \<times> world"

definition select_default_validator :: select_validator where
  \<comment> \<open>\<^verbatim>\<open>Field.default_validator\<close>, the default of the parameter\<close>
  "select_default_validator _ es w = (Inr True, es, w)"

datatype iter =
  Continue int "event list" world | Done "int option outcome" "event list" world

text \<open>
  One pass of the \<^verbatim>\<open>while True\<close> loop of \<^verbatim>\<open>select\<close>, from the cursor index at its start.
  The items are strings, so the check of their type never fires. After a key that is
  neither a move, nor a cancel, nor a confirm, \<^verbatim>\<open>show_help\<close> waits for one more key and
  the loop goes on without clamping.
\<close>

definition select_iter ::
  "string \<Rightarrow> string list \<Rightarrow> string option \<Rightarrow> select_validator \<Rightarrow> int \<Rightarrow> event list \<Rightarrow> world \<Rightarrow> iter" where
  "select_iter prompt items headings validator cursor_index es w =
     (let frame = select_frame prompt items headings cursor_index (queue w)
      in case es of
           [] \<Rightarrow> Done Blocked [] (run_steps None frame w)
         | Curses_error n # es1 \<Rightarrow> Continue cursor_index es1 (run_steps (Some n) frame w)
         | Key key # es1 \<Rightarrow>
             (let w1 = run_steps None frame w;
                  clamp = (\<lambda>i. min (max i 0) (int (length items) - 1))
              in if key = ''j'' \<or> key = ''KEY_DOWN'' then Continue (clamp (cursor_index + 1)) es1 w1
                 else if key = ''k'' \<or> key = ''KEY_UP'' then Continue (clamp (cursor_index - 1)) es1 w1
                 else if key = ''q'' then Done (Returned None) es1 w1
                 else if key = '';'' \<or> key = [CHR 0x0A] then
                   (case py_index items cursor_index of
                      Inl e \<Rightarrow> Done (Raised e) es1 w1
                    | Inr item \<Rightarrow>
                        (case validator item es1 w1 of
                           (Inl e, es2, w2) \<Rightarrow> Done (Raised e) es2 w2
                         | (Inr ok, es2, w2) \<Rightarrow>
                             Done (Returned (if ok then Some cursor_index else None)) es2 w2))
                 else
                   (case es1 of
                      [] \<Rightarrow> Done Blocked [] (run_steps None help_frame w1)
                    | Key _ # es2 \<Rightarrow> Continue cursor_index es2 (run_steps None help_frame w1)
                    | Curses_error n # es2 \<Rightarrow>
                        Continue cursor_index es2 (run_steps (Some n) help_frame w1))))"

function select_loop ::
  "string \<Rightarrow> string list \<Rightarrow> string option \<Rightarrow> select_validator \<Rightarrow> int \<Rightarrow> event list \<Rightarrow> world
     \<Rightarrow> int option outcome \<times> event list \<times> world" where
  "select_loop prompt items headings validator cursor_index es w =
     (case select_iter prompt items headings validator cursor_index es w of
        Done r es' w' \<Rightarrow> (r, es', w')
      | Continue cursor_index' es' w' \<Rightarrow>
          select_loop prompt items headings validator cursor_index' es' w')"
  by pat_completeness auto
termination
  by (relation "measure (\<lambda>(prompt, items, headings, validator, cursor_index, es, w). length es)")
    (auto simp: select_iter_def Let_def split: list.splits event.splits if_splits sum.splits
      prod.splits)

text \<open>The value of \<^verbatim>\<open>cursor_index\<close> at the start of every pass of that loop.\<close>

function select_cursors ::
  "string \<Rightarrow> string list \<Rightarrow> string option \<Rightarrow> select_validator \<Rightarrow> int \<Rightarrow> event list \<Rightarrow> world
     \<Rightarrow> int list" where
  "select_cursors prompt items headings validator cursor_index es w =
     cursor_index #
     (case select_iter prompt items headings validator cursor_index es w of
        Done r es' w' \<Rightarrow> []
      | Continue cursor_index' es' w' \<Rightarrow>
          select_cursors prompt items headings validator cursor_index' es' w')"
  by pat_completeness auto
termination
  by (relation "measure (\<lambda>(prompt, items, headings, validator, cursor_index, es, w). length es)")
    (auto simp: select_iter_def Let_def split: list.splits event.splits if_splits sum.splits
      prod.splits)

definition select ::
  "string \<Rightarrow> string list \<Rightarrow> string option \<Rightarrow> int \<Rightarrow> select_validator \<Rightarrow> event list \<Rightarrow> world
     \<Rightarrow> int option outcome \<times> event list \<times> world" where
  "select prompt items headings cursor_index validator es w =
     (if length items \<le> 0 then
        (Returned None, es, w\<lparr>queue := error ''Not enough items given to select from'' (queue w)\<rparr>)
      else select_loop prompt items headings validator cursor_index es w)"


section \<open>Editing a field\<close>

definition input_frame :: "string \<Rightarrow> string \<Rightarrow> step list" where
  "input_frame prompt response =
     [Call (Clear Win), Call (Addstr (prompt @ [CHR 0x0A, CHR 0x0A] @ '': '' @ response)),
      Call (Refresh Win), Call (Curs_set 1)]"

text \<open>
  The loop of \<^verbatim>\<open>CursesApp.input\<close>, from the text typed so far. Every pass takes one event.
  \<^verbatim>\<open>response[:-1]\<close> of the empty string is the empty string, as \<open>butlast\<close> has it.
\<close>

fun input_loop ::
  "string \<Rightarrow> string \<Rightarrow> event list \<Rightarrow> world \<Rightarrow> string outcome \<times> event list \<times> world" where
  "input_loop prompt response [] w =
     (Blocked, [], run_steps None (input_frame prompt response) w)"
| "input_loop prompt response (Curses_error n # es) w =
     input_loop prompt response es (run_steps (Some n) (input_frame prompt response) w)"
| "input_loop prompt response (Key key # es) w =
     (let w1 = do_calls [Curs_set 0] (run_steps None (input_frame prompt response) w)
      in if key = [CHR 0x0A] then (Returned response, es, w1)
         else
           (let response1 = (if length key = 1 then response @ key else response);
                response2 = (if key = ''KEY_BACKSPACE'' then butlast response1 else response1)
            in input_loop prompt response2 es w1))"

definition input ::
  "ref \<Rightarrow> string \<Rightarrow> event list \<Rightarrow> world \<Rightarrow> heap \<Rightarrow> ref outcome \<times> event list \<times> world \<times> heap" where
  "input field prompt es w h =
     (case input_loop prompt (Field_get_str (h field)) es w of
        (Returned response, es', w') \<Rightarrow>
          (case Field_set (h field) (PyStr response) (queue w') of
             (ok, f', q') \<Rightarrow> (Returned field, es', w'\<lparr>queue := q'\<rparr>, h(field := f')))
      | (Raised e, es', w') \<Rightarrow> (Raised e, es', w', h)
      | (Blocked, es', w') \<Rightarrow> (Blocked, es', w', h))"


section \<open>Choosing a device and a time zone\<close>

definition ch_isspace :: "char \<Rightarrow> bool" where
  "ch_isspace c \<longleftrightarrow>
     code_in c 0x09 0x0D \<or> code_in c 0x1C 0x20 \<or> code_in c 0x85 0x85 \<or> code_in c 0xA0 0xA0"

definition ch_islinebreak :: "char \<Rightarrow> bool" where
  "ch_islinebreak c \<longleftrightarrow> code_in c 0x0A 0x0D \<or> code_in c 0x1C 0x1E \<or> code_in c 0x85 0x85"

fun splitlines_from :: "string \<Rightarrow> string \<Rightarrow> string list" where
  "splitlines_from cur [] = (if cur = [] then [] else [cur])"
| "splitlines_from cur [c] = (if ch_islinebreak c then [cur] else [cur @ [c]])"
| "splitlines_from cur (c # d # cs) =
     (if c = CHR 0x0D \<and> d = CHR 0x0A then cur # splitlines_from [] cs
      else if ch_islinebreak c then cur # splitlines_from [] (d # cs)
      else splitlines_from (cur @ [c]) (d # cs))"

definition splitlines :: "string \<Rightarrow> string list" where
  "splitlines s = splitlines_from [] s"

fun split_from :: "string \<Rightarrow> string \<Rightarrow> string list" where
  "split_from cur [] = (if cur = [] then [] else [cur])"
| "split_from cur (c # cs) =
     (if ch_isspace c then (if cur = [] then [] else [cur]) @ split_from [] cs
      else split_from (cur @ [c]) cs)"

definition py_split :: "string \<Rightarrow> string list" where
  \<comment> \<open>\<^verbatim>\<open>s.split()\<close>: the runs of characters that are not white space\<close>
  "py_split s = split_from [] s"

text \<open>
  \<^verbatim>\<open>CursesApp.get_device\<close>. The list of devices is what \<^verbatim>\<open>lsblk\<close> prints, stripped, or
  \<^verbatim>\<open>None\<close> when the command fails. The validator of the dialog asks \<^verbatim>\<open>lsblk\<close> about the
  chosen device and may open a confirmation dialog; it is a parameter.
\<close>

definition get_device ::
  "string option \<Rightarrow> select_validator \<Rightarrow> event list \<Rightarrow> world
     \<Rightarrow> string option outcome \<times> event list \<times> world" where
  "get_device lsblk validator es w =
     (case lsblk of
        None \<Rightarrow>
          (Returned None, es,
           w\<lparr>queue := error ''Failed to get device information from lsblk'' (queue w)\<rparr>)
      | Some out \<Rightarrow>
          if out = [] then
            (Returned None, es,
             w\<lparr>queue := error ''Failed to get device information from lsblk'' (queue w)\<rparr>)
          else
            (case splitlines out of
               device_headings # devices \<Rightarrow>
                 if devices = [] then
                   (Returned None, es, w\<lparr>queue := error ''Not enough devices listed'' (queue w)\<rparr>)
                 else
                   (case select ''Select the device to format for installation:'' devices
                           (Some device_headings) 0 validator es w of
                      (Returned None, es', w') \<Rightarrow>
                        (Returned None, es',
                         w'\<lparr>queue := error ''Failed to select a device'' (queue w')\<rparr>)
                    | (Returned (Some selection_index), es', w') \<Rightarrow>
                        (case py_index devices selection_index of
                           Inl e \<Rightarrow> (Raised e, es', w')
                         | Inr device \<Rightarrow>
                             (case py_split device of
                                [] \<Rightarrow>
                                  (Returned None, es',
                                   w'\<lparr>queue :=
                                        error (''Missing path for device: '' @ device) (queue w')\<rparr>)
                              | path # _ \<Rightarrow> (Returned (Some path), es', w')))
                    | (Raised e, es', w') \<Rightarrow> (Raised e, es', w')
                    | (Blocked, es', w') \<Rightarrow> (Blocked, es', w'))
             | [] \<Rightarrow>
                 (Returned None, es, w\<lparr>queue := error ''Not enough devices listed'' (queue w)\<rparr>)))"

definition get_time_zone ::
  "string option \<Rightarrow> event list \<Rightarrow> world \<Rightarrow> string option outcome \<times> event list \<times> world" where
  "get_time_zone timezones_str es w =
     (case timezones_str of
        None \<Rightarrow>
          (Returned None, es,
           w\<lparr>queue := error ''Failed to get the list of timezones from timedatectl'' (queue w)\<rparr>)
      | Some out \<Rightarrow>
          if out = [] then
            (Returned None, es,
             w\<lparr>queue :=
                  error ''Failed to get the list of timezones from timedatectl'' (queue w)\<rparr>)
          else
            (case select ''Select the new timezone:'' (splitlines out) None 0
                    select_default_validator es w of
               (Returned None, es', w') \<Rightarrow>
                 (Returned None, es',
                  w'\<lparr>queue := error ''Failed to select a timezone'' (queue w')\<rparr>)
             | (Returned (Some selection_index), es', w') \<Rightarrow>
                 (case py_index (splitlines out) selection_index of
                    Inl e \<Rightarrow> (Raised e, es', w')
                  | Inr tz \<Rightarrow> (Returned (Some tz), es', w'))
             | (Raised e, es', w') \<Rightarrow> (Raised e, es', w')
             | (Blocked, es', w') \<Rightarrow> (Blocked, es', w')))"


section \<open>The configuration menu\<close>

text \<open>
  What the external commands answer during one pass of the menu: the device table of
  \<^verbatim>\<open>lsblk\<close>, the time zones of \<^verbatim>\<open>timedatectl\<close> and the device validator, which is given
  the minimum size.
\<close>

record env =
  lsblk_devices :: "string option"
  timezones :: "string option"
  interactive_device_validator :: "pyval \<Rightarrow> select_validator"

definition field_attr :: "Profile \<Rightarrow> string \<Rightarrow> ref \<Rightarrow> ref" where
  \<comment> \<open>\<^verbatim>\<open>profile.<key>\<close> for a key the class binds to \<open>class_attr\<close>\<close>
  "field_attr profile key class_attr =
     (case instance_dict profile key of Some r \<Rightarrow> r | None \<Rightarrow> class_attr)"

definition field_set :: "ref \<Rightarrow> pyval \<Rightarrow> world \<Rightarrow> heap \<Rightarrow> world \<times> heap" where
  \<comment> \<open>a call of \<^verbatim>\<open>set\<close> whose result is dropped\<close>
  "field_set r v w h =
     (case Field_set (h r) v (queue w) of (ok, f', q') \<Rightarrow> (w\<lparr>queue := q'\<rparr>, h(r := f')))"

definition optional_str :: "string option \<Rightarrow> pyval" where
  "optional_str x = (case x of None \<Rightarrow> PyNone | Some s \<Rightarrow> PyStr s)"

definition menu_items :: "Profile \<Rightarrow> heap \<Rightarrow> string list" where
  "menu_items profile h =
     ['' network install  ->  '' @
        Field_get_str (h (field_attr profile ''network_install'' R_network_install)),
      ''min device bytes  ->  '' @
        Field_get_str (h (field_attr profile ''min_device_bytes'' R_min_device_bytes)),
      ''          device  ->  '' @ Field_get_str (h (field_attr profile ''device'' R_device)),
      ''      boot label  ->  '' @
        Field_get_str (h (field_attr profile ''boot_label'' R_boot_label)),
      ''       time zone  ->  '' @
        Field_get_str (h (field_attr profile ''time_zone'' R_time_zone)),
      ''        hostname  ->  '' @ Field_get_str (h (field_attr profile ''hostname'' R_hostname)),
      ''   root password  ->  '' @
        Field_get_str (h (field_attr profile ''root_password'' R_root_password)),
      ''        username  ->  '' @ Field_get_str (h (field_attr profile ''username'' R_username)),
      ''   user password  ->  '' @
        Field_get_str (h (field_attr profile ''user_password'' R_user_password)),
      ''      sudo group  ->  '' @
        Field_get_str (h (field_attr profile ''sudo_group'' R_sudo_group)) @ [CHR 0x0A],
      ''Begin Installation'']"

datatype pass = Next int Profile | Proceed Profile | Cancelled | Pass_raised exn | Pass_blocked

definition edit_row ::
  "Profile \<Rightarrow> string \<Rightarrow> ref \<Rightarrow> string \<Rightarrow> int \<Rightarrow> event list \<Rightarrow> world \<Rightarrow> heap
     \<Rightarrow> pass \<times> event list \<times> world \<times> heap" where
  \<comment> \<open>\<^verbatim>\<open>profile.<key> = app.input(profile.<key>, prompt)\<close>\<close>
  "edit_row profile key class_attr prompt cursor_index es w h =
     (case input (field_attr profile key class_attr) prompt es w h of
        (Returned field, es', w', h') \<Rightarrow> (Next cursor_index (setattr profile key field), es', w', h')
      | (Raised e, es', w', h') \<Rightarrow> (Pass_raised e, es', w', h')
      | (Blocked, es', w', h') \<Rightarrow> (Pass_blocked, es', w', h'))"

definition device_row ::
  "env \<Rightarrow> Profile \<Rightarrow> event list \<Rightarrow> world \<Rightarrow> heap
     \<Rightarrow> unit outcome \<times> event list \<times> world \<times> heap" where
  \<comment> \<open>\<^verbatim>\<open>profile.device.set(app.get_device(profile.min_device_bytes.get()))\<close>\<close>
  "device_row e profile es w h =
     (case get_device (lsblk_devices e)
             (interactive_device_validator e
                (Field_get (h (field_attr profile ''min_device_bytes'' R_min_device_bytes))))
             es w of
        (Returned d, es', w') \<Rightarrow>
          (case field_set (field_attr profile ''device'' R_device) (optional_str d) w' h of
             (w'', h') \<Rightarrow> (Returned (), es', w'', h'))
      | (Raised x, es', w') \<Rightarrow> (Raised x, es', w', h)
      | (Blocked, es', w') \<Rightarrow> (Blocked, es', w', h))"

text \<open>
  One pass of the \<^verbatim>\<open>while True\<close> loop of \<^verbatim>\<open>interactive_conf\<close>: the menu, and the action
  of the chosen row. \<open>Next\<close> is the start of another pass, \<open>Proceed\<close> the \<^verbatim>\<open>break\<close> that
  leads to the installation, \<open>Cancelled\<close> the \<^verbatim>\<open>return None\<close>.
\<close>

definition interactive_conf_pass ::
  "env \<Rightarrow> Profile \<Rightarrow> int \<Rightarrow> event list \<Rightarrow> world \<Rightarrow> heap \<Rightarrow> pass \<times> event list \<times> world \<times> heap" where
  "interactive_conf_pass e profile cursor_index es w h =
     (case select ''Select a field to change before installation:'' (menu_items profile h)
             None cursor_index select_default_validator es w of
        (Raised x, es1, w1) \<Rightarrow> (Pass_raised x, es1, w1, h)
      | (Blocked, es1, w1) \<Rightarrow> (Pass_blocked, es1, w1, h)
      | (Returned None, es1, w1) \<Rightarrow> (Cancelled, es1, w1, h)
      | (Returned (Some row), es1, w1) \<Rightarrow>
          if row = 0 then
            (case select
                    (''Enable network installation mode?'' @ [CHR 0x0A, CHR 0x0A] @
                     ''Note: Check the configuration at /etc/pacman.conf before changing this setting.'')
                    [''No. Install packages from an offline repository.'',
                     ''Yes. Download and install packages from remote repositories.'']
                    None 0 select_default_validator es1 w1 of
               (Returned (Some selection_index), es2, w2) \<Rightarrow>
                 (case field_set (field_attr profile ''network_install'' R_network_install)
                         (PyBool (selection_index \<noteq> 0)) w2 h of
                    (w3, h') \<Rightarrow> (Next row profile, es2, w3, h'))
             | (Returned None, es2, w2) \<Rightarrow> (Next row profile, es2, w2, h)
             | (Raised x, es2, w2) \<Rightarrow> (Pass_raised x, es2, w2, h)
             | (Blocked, es2, w2) \<Rightarrow> (Pass_blocked, es2, w2, h))
          else if row = 1 then
            edit_row profile ''min_device_bytes'' R_min_device_bytes
              ''Enter the minimum number of bytes for a device:'' row es1 w1 h
          else if row = 2 then
            (case device_row e profile es1 w1 h of
               (Returned _, es2, w2, h') \<Rightarrow> (Next row profile, es2, w2, h')
             | (Raised x, es2, w2, h') \<Rightarrow> (Pass_raised x, es2, w2, h')
             | (Blocked, es2, w2, h') \<Rightarrow> (Pass_blocked, es2, w2, h'))
          else if row = 3 then
            edit_row profile ''boot_label'' R_boot_label ''Enter the new boot label:'' row es1 w1 h
          else if row = 4 then
            (case get_time_zone (timezones e) es1 w1 of
               (Returned new_time_zone, es2, w2) \<Rightarrow>
                 (case new_time_zone of
                    None \<Rightarrow> (Next row profile, es2, w2, h)
                  | Some tz \<Rightarrow>
                      if tz = [] then (Next row profile, es2, w2, h)
                      else
                        (case field_set (field_attr profile ''time_zone'' R_time_zone)
                                (PyStr tz) w2 h of
                           (w3, h') \<Rightarrow> (Next row profile, es2, w3, h')))
             | (Raised x, es2, w2) \<Rightarrow> (Pass_raised x, es2, w2, h)
             | (Blocked, es2, w2) \<Rightarrow> (Pass_blocked, es2, w2, h))
          else if row = 5 then
            edit_row profile ''hostname'' R_hostname ''Enter the new hostname:'' row es1 w1 h
          else if row = 6 then
            edit_row profile ''root_password'' R_root_password
              ''Enter the new password for root:'' row es1 w1 h
          else if row = 7 then
            edit_row profile ''username'' R_username ''Enter the new name for the user:'' row es1 w1 h
          else if row = 8 then
            edit_row profile ''user_password'' R_user_password
              ''Enter the new password for the user:'' row es1 w1 h
          else if row = 9 then
            edit_row profile ''sudo_group'' R_sudo_group
              ''Enter the new name for the sudo group:'' row es1 w1 h
          else if row = 10 then
            (if Field_get (h (field_attr profile ''device'' R_device)) \<noteq> PyNone
             then (Proceed profile, es1, w1, h)
             else
               (case device_row e profile es1 w1 h of
                  (Returned _, es2, w2, h') \<Rightarrow>
                    if Field_get (h' (field_attr profile ''device'' R_device)) \<noteq> PyNone
                    then (Proceed profile, es2, w2, h')
                    else (Next row profile, es2, w2, h')
                | (Raised x, es2, w2, h') \<Rightarrow> (Pass_raised x, es2, w2, h')
                | (Blocked, es2, w2, h') \<Rightarrow> (Pass_blocked, es2, w2, h')))
          else (Next row profile, es1, w1, h))"

fun cleanup_times :: "nat \<Rightarrow> CursesApp \<Rightarrow> world \<Rightarrow> CursesApp \<times> world" where
  \<comment> \<open>\<^verbatim>\<open>cleanup\<close> called a number of times in a row: by the program, and again at exit\<close>
  "cleanup_times 0 self w = (self, w)"
| "cleanup_times (Suc n) self w =
     (case cleanup self w of (self', w') \<Rightarrow> cleanup_times n self' w')"

declare select_loop.simps [simp del] select_cursors.simps [simp del]


section \<open>Properties of the validators and of \<^verbatim>\<open>Field.set\<close>\<close>


lemma validator_accepts_silently:
  assumes "val \<in> field_validators" and "val s q = (True, q')"
  shows "q' = q"
  using assms
  by (auto simp: field_validators_def default_validator_def numeric_validator_def
      boot_label_validator_def hostname_validator_def name_validator_def
      password_validator_def split: if_splits)

lemmas char_class_defs =
  code_in_def ch_isdecimal_def ch_isnumeric_def ch_isalpha_def ch_isalnum_def
  ch_isprintable_def ch_isascii_def ch_isupper_def ch_islower_def
  isnumeric_def isalnum_def isprintable_def isascii_def islower_def remove_char_def
  startswith_def




section \<open>The numeric validator\<close>

text \<open>
  Claim C5, as stated: the numeric validator accepts exactly the strings all of whose
  characters are decimal digits. The empty string has no other character, and
  \<^verbatim>\<open>"".isnumeric()\<close> is false: the validator rejects it.
\<close>

theorem numeric_validator_empty_counterexample:
  "\<not> (fst (numeric_validator [] []) \<longleftrightarrow> list_all ch_isdecimal [])"
  by (simp add: numeric_validator_def isnumeric_def)

lemma ascii_numeric_is_decimal: "ch_isascii c \<Longrightarrow> ch_isnumeric c = ch_isdecimal c"
  by (auto simp: ch_isascii_def ch_isnumeric_def ch_isdecimal_def code_in_def)

text \<open>
  Claim C5, amended. The numeric validator accepts a string when it is not empty and
  every character is numeric for \<^verbatim>\<open>str.isnumeric\<close>; otherwise it rejects it and puts the
  error \<^verbatim>\<open>The given value is not numeric: <value>\<close> on the log. For a string of ASCII
  characters that is: not empty and every character a decimal digit.
\<close>

theorem numeric_validator_amended:
  "numeric_validator s q =
     (if s \<noteq> [] \<and> list_all ch_isnumeric s then (True, q)
      else (False, error (''The given value is not numeric: '' @ s) q)) \<and>
   (list_all ch_isascii s \<longrightarrow>
      (fst (numeric_validator s q) \<longleftrightarrow> s \<noteq> [] \<and> list_all ch_isdecimal s))"
proof -
  have "list_all ch_isnumeric s = list_all ch_isdecimal s" if "list_all ch_isascii s"
    using that by (induction s) (auto simp: ascii_numeric_is_decimal)
  then show ?thesis
    by (auto simp: numeric_validator_def isnumeric_def)
qed

theorem numeric_validator_amended_witness:
  "list_all ch_isascii ''10000000000'' \<and>
   (fst (numeric_validator ''10000000000'' []) \<longleftrightarrow>
      ''10000000000'' \<noteq> [] \<and> list_all ch_isdecimal ''10000000000'') \<and>
   list_all ch_isascii ''1e10'' \<and>
   (fst (numeric_validator ''1e10'' []) \<longleftrightarrow> ''1e10'' \<noteq> [] \<and> list_all ch_isdecimal ''1e10'')"
proof -
  have a: "list_all ch_isascii ''10000000000''" "list_all ch_isascii ''1e10''"
    by (simp_all add: ch_isascii_def code_in_def)
  from numeric_validator_amended [of "''10000000000''" "[]"]
    numeric_validator_amended [of "''1e10''" "[]"] a
  show ?thesis by blast
qed

lemma numeric_validator_accepts_superscript:
  "numeric_validator [CHR 0xB2] [] = (True, [])"
  by (simp add: numeric_validator_def char_class_defs)


section \<open>Dumping and loading\<close>

text \<open>
  Claim C1. \<^verbatim>\<open>dump_profile\<close> is meant to write every field's value under the field's
  name. It takes the names from \<^verbatim>\<open>asdict\<close>, and the dataclass has no registered field:
  whatever the profile holds, the object written is empty.
\<close>

theorem dump_profile_writes_no_field:
  "dump_profile profile path True h q = (True, Some [], q)"
  by (simp add: dump_profile_def asdict_def dataclass_fields_def List.map_filter_simps)

text \<open>
  A profile whose hostname is \<^verbatim>\<open>node1\<close> is dumped as the empty object, and a process that
  starts from the class defaults and loads that object has the hostname \<^verbatim>\<open>arch\<close>.
\<close>

lemma dump_then_load_forgets_hostname:
  "dump_profile Profile_init ''profile.json'' True
     (initial_heap(R_hostname := (initial_heap R_hostname)\<lparr>f_value := PyStr ''node1''\<rparr>)) [] =
     (True, Some [], []) \<and>
   load_profile ''profile.json'' (Object []) initial_heap [] =
     (Some Profile_init, initial_heap, []) \<and>
   Field_get (initial_heap R_hostname) = PyStr ''arch''"
  by (simp add: dump_profile_def asdict_def dataclass_fields_def List.map_filter_simps
      load_profile_def Field_get_def Field_init_def)

text \<open>
  Claim C2. A document whose value for \<^verbatim>\<open>min_device_bytes\<close> is the integer \<^verbatim>\<open>-1\<close> parses.
  The validator rejects \<^verbatim>\<open>"-1"\<close>; building the warning then adds the integer to a \<^verbatim>\<open>str\<close>,
  which raises \<^verbatim>\<open>TypeError\<close>, and \<^verbatim>\<open>load_profile\<close> returns \<^verbatim>\<open>None\<close> after the error
  \<^verbatim>\<open>Failed to read the profile\<close>: no warning, and no profile.
\<close>

theorem load_profile_invalid_integer_fails:
  "load_profile ''profile.json'' (Object [(''min_device_bytes'', PyInt (- 1))]) initial_heap [] =
     (None, initial_heap,
      error ''Failed to read the profile from profile.json''
        (error ''The given value is not numeric: -1'' []))"
  by (simp add: load_profile_def Profile_init_def getattr_def Profile_class_def
      Field_set_def Field_init_def numeric_validator_def str_int_def char_class_defs)

text \<open>The example the documentation gives does load, with one warning.\<close>

lemma load_profile_documented_example:
  "load_profile ''profile.json''
     (Object [(''bogus'', PyInt 1), (''hostname'', PyStr ''node1'')]) initial_heap [] =
     (Some (setattr Profile_init ''hostname'' R_hostname),
      initial_heap(R_hostname := (initial_heap R_hostname)\<lparr>f_value := PyStr ''node1''\<rparr>),
      warning ''Unrecognized field in profile: bogus'' [])"
  by (simp add: load_profile_def Profile_init_def getattr_def Profile_class_def object_attrs_def
      Field_set_def Field_init_def hostname_validator_def char_class_defs)

text \<open>A key that names an attribute which is not a field ends the load as well.\<close>

lemma load_profile_object_attribute_fails:
  "load_profile ''profile.json'' (Object [(''__doc__'', PyStr ''x'')]) initial_heap [] =
     (None, initial_heap, error ''Failed to read the profile from profile.json'' [])"
  by (simp add: load_profile_def Profile_init_def getattr_def Profile_class_def object_attrs_def)


section \<open>Shared fields\<close>

lemma shares_class_fields_init: "shares_class_fields Profile_init"
  by (simp add: shares_class_fields_def Profile_init_def)

lemma getattr_field_is_class_attr:
  "shares_class_fields p \<Longrightarrow> getattr p key = Some (Attr_field r) \<Longrightarrow>
   map_of Profile_class key = Some r"
  by (auto simp: shares_class_fields_def getattr_def split: option.splits if_splits)

lemma getattr_of_class_attr:
  "shares_class_fields p \<Longrightarrow> map_of Profile_class key = Some r \<Longrightarrow>
   getattr p key = Some (Attr_field r)"
  by (auto simp: shares_class_fields_def getattr_def split: option.splits)

text \<open>
  Claim C4. Every \<^verbatim>\<open>Profile\<close> instance reaches the same \<^verbatim>\<open>Field\<close> objects, those of the
  class. When \<^verbatim>\<open>set\<close> stores a value in the field found through one instance (as
  \<^verbatim>\<open>load_profile\<close> does through \<^verbatim>\<open>getattr\<close>), the same key leads every other instance, and
  a \<^verbatim>\<open>Profile()\<close> constructed afterwards, to that object, which now holds the new value
  and not the default it was constructed with.
\<close>

theorem Profile_instances_share_fields:
  assumes "shares_class_fields p1" and "shares_class_fields p2"
    and "getattr p1 key = Some (Attr_field r)"
    and "Field_set (h r) v q = (True, f', q')"
  shows "getattr p2 key = Some (Attr_field r) \<and>
         getattr Profile_init key = Some (Attr_field r) \<and>
         Field_get ((h(r := f')) r) = v"
proof -
  from assms(1,3) have c: "map_of Profile_class key = Some r"
    by (rule getattr_field_is_class_attr)
  from assms(4) have "f' = (h r)\<lparr>f_value := v\<rparr>"
    by (auto simp: Field_set_def split: prod.splits bool.splits)
  with c assms(2) shares_class_fields_init show ?thesis
    by (simp add: getattr_of_class_attr Field_get_def)
qed

theorem Profile_instances_share_fields_witness:
  "shares_class_fields (setattr Profile_init ''hostname'' R_hostname) \<and>
   shares_class_fields Profile_init \<and>
   getattr (setattr Profile_init ''hostname'' R_hostname) ''hostname'' = Some (Attr_field R_hostname) \<and>
   Field_set (initial_heap R_hostname) (PyStr ''node1'') [] =
     (True, (initial_heap R_hostname)\<lparr>f_value := PyStr ''node1''\<rparr>, []) \<and>
   getattr Profile_init ''hostname'' = Some (Attr_field R_hostname) \<and>
   Field_get ((initial_heap(R_hostname := (initial_heap R_hostname)\<lparr>f_value := PyStr ''node1''\<rparr>))
                R_hostname) = PyStr ''node1'' \<and>
   Field_get (initial_heap R_hostname) = PyStr ''arch''"
proof -
  have a: "shares_class_fields (setattr Profile_init ''hostname'' R_hostname)"
    by (simp add: shares_class_fields_def setattr_def Profile_init_def Profile_class_def)
  have b: "getattr (setattr Profile_init ''hostname'' R_hostname) ''hostname'' =
      Some (Attr_field R_hostname)"
    by (simp add: getattr_def setattr_def)
  have c: "Field_set (initial_heap R_hostname) (PyStr ''node1'') [] =
     (True, (initial_heap R_hostname)\<lparr>f_value := PyStr ''node1''\<rparr>, [])"
    by (simp add: Field_set_def Field_init_def hostname_validator_def char_class_defs)
  have d: "Field_get (initial_heap R_hostname) = PyStr ''arch''"
    by (simp add: Field_get_def Field_init_def)
  from Profile_instances_share_fields [where h = initial_heap, OF a shares_class_fields_init b c]
    a b c d
    shares_class_fields_init
  show ?thesis by simp
qed

text \<open>
  The instances that \<^verbatim>\<open>load_profile\<close> returns keep that property, and the menu's
  attribute access finds the class's object through them.
\<close>

lemma load_items_shares:
  "shares_class_fields p \<Longrightarrow> load_items items p h q = (Inr p', h', q') \<Longrightarrow>
   shares_class_fields p'"
proof (induction items arbitrary: p h q)
  case Nil
  then show ?case by simp
next
  case (Cons kv items)
  obtain key v where kv: "kv = (key, v)" by (cases kv)
  have step: "shares_class_fields (setattr p key r)" if "getattr p key = Some (Attr_field r)" for r
    using getattr_field_is_class_attr [OF Cons.prems(1) that] Cons.prems(1)
    by (auto simp: shares_class_fields_def setattr_def)
  from Cons.prems(2) show ?case
    unfolding kv
    by (auto split: option.splits attr.splits prod.splits bool.splits pyval.splits
        intro: Cons.IH [OF Cons.prems(1)] Cons.IH [OF step])
qed

lemma load_profile_shares:
  "load_profile path doc h q = (Some p, h', q') \<Longrightarrow> shares_class_fields p"
  by (auto simp: load_profile_def split: document.splits prod.splits sum.splits
      dest: load_items_shares [OF shares_class_fields_init])

lemma field_attr_shared:
  "shares_class_fields p \<Longrightarrow> map_of Profile_class key = Some r \<Longrightarrow> field_attr p key r = r"
  by (auto simp: field_attr_def shares_class_fields_def split: option.splits)

lemma load_profile_then_fresh_Profile:
  "load_profile ''profile.json'' (Object [(''hostname'', PyStr ''node1'')]) initial_heap [] =
     (Some p, h', q') \<Longrightarrow>
   Field_get (h' (field_attr Profile_init ''hostname'' R_hostname)) = PyStr ''node1''"
  by (auto simp: load_profile_def Profile_init_def getattr_def Profile_class_def
      Field_set_def Field_init_def hostname_validator_def char_class_defs field_attr_def
      Field_get_def)


section \<open>The terminal session: geometry and cleanup\<close>

text \<open>
  Claim C6. The window of the session is \<^verbatim>\<open>self.lines\<close> by \<^verbatim>\<open>self.cols\<close>. On a terminal of
  exactly 12 by 44 the session is ready with a window of 12 by 44; every session that is
  ready has a window of at least 10 lines and 44 columns; on a terminal with fewer than
  12 lines or fewer than 44 columns the session is not ready, and the only calls made
  are those that set the terminal up and those that restore it: no window is created
  and nothing is drawn.
\<close>

theorem viewport_geometry:
  "(LINES = 12 \<and> COLS = 44 \<longrightarrow>
      good (fst (CursesApp_init LINES COLS w)) \<and>
      lines (fst (CursesApp_init LINES COLS w)) = Some 12 \<and>
      cols (fst (CursesApp_init LINES COLS w)) = Some 44) \<and>
   (good (fst (CursesApp_init LINES COLS w)) \<longrightarrow>
      (\<exists>l c. lines (fst (CursesApp_init LINES COLS w)) = Some l \<and>
             cols (fst (CursesApp_init LINES COLS w)) = Some c \<and> 10 \<le> l \<and> 44 \<le> c)) \<and>
   (LINES < 12 \<or> COLS < 44 \<longrightarrow>
      \<not> good (fst (CursesApp_init LINES COLS w)) \<and>
      calls (snd (CursesApp_init LINES COLS w)) = calls w @ setup_calls @ restore_calls)"
  by (auto simp: CursesApp_init_def Let_def min_lines_def min_cols_def
      max_border_lines_def max_border_cols_def cleanup_def do_calls_def)

theorem viewport_geometry_witness:
  "good (fst (CursesApp_init 12 44 \<lparr>queue = [], log_file = None, calls = []\<rparr>)) \<and>
   lines (fst (CursesApp_init 12 44 \<lparr>queue = [], log_file = None, calls = []\<rparr>)) = Some 12 \<and>
   cols (fst (CursesApp_init 12 44 \<lparr>queue = [], log_file = None, calls = []\<rparr>)) = Some 44 \<and>
   \<not> good (fst (CursesApp_init 11 44 \<lparr>queue = [], log_file = None, calls = []\<rparr>)) \<and>
   \<not> good (fst (CursesApp_init 12 43 \<lparr>queue = [], log_file = None, calls = []\<rparr>)) \<and>
   calls (snd (CursesApp_init 11 44 \<lparr>queue = [], log_file = None, calls = []\<rparr>)) =
     setup_calls @ restore_calls"
  using viewport_geometry [of 12 44 "\<lparr>queue = [], log_file = None, calls = []\<rparr>"]
    viewport_geometry [of 11 44 "\<lparr>queue = [], log_file = None, calls = []\<rparr>"]
    viewport_geometry [of 12 43 "\<lparr>queue = [], log_file = None, calls = []\<rparr>"]
  by simp

lemma cleanup_times_clean:
  "clean self \<Longrightarrow> cleanup_times n self w = (if n = 0 then self else self\<lparr>good := False\<rparr>, w)"
  by (induction n arbitrary: self) (auto simp: cleanup_def Let_def)

lemma cleanup_times_not_clean:
  "\<not> clean self \<Longrightarrow>
   cleanup_times (Suc n) self w = (self\<lparr>good := False, clean := True\<rparr>, do_calls restore_calls w)"
  by (simp add: cleanup_def Let_def cleanup_times_clean)

lemma CursesApp_init_calls:
  "CursesApp_init LINES COLS w = (self, w') \<Longrightarrow>
   (clean self \<and> calls w' = calls w @ setup_calls @ restore_calls) \<or>
   (\<not> clean self \<and> (\<exists>cs. calls w' = calls w @ setup_calls @ cs \<and> Endwin \<notin> set cs))"
  by (auto simp: CursesApp_init_def Let_def cleanup_def do_calls_def split: if_splits)

text \<open>
  Claim C9. \<^verbatim>\<open>cleanup\<close> is idempotent. On a session that has not been cleaned, any
  number of calls, one or more, makes the restoring calls (keypad off, cursor shown,
  echo, line buffering, \<^verbatim>\<open>endwin\<close>) once; on a session that has been cleaned, calls change
  nothing on the terminal. So from the construction of a session on, whatever the
  terminal size, \<^verbatim>\<open>endwin\<close> has been called exactly once after one or more cleanups.
\<close>

theorem cleanup_restores_once:
  "cleanup (fst (cleanup self w)) (snd (cleanup self w)) = cleanup self w \<and>
   (\<not> clean self \<longrightarrow>
      calls (snd (cleanup_times (Suc n) self w)) = calls w @ restore_calls) \<and>
   (clean self \<longrightarrow> snd (cleanup_times n self w) = w) \<and>
   (Endwin \<notin> set (calls w) \<longrightarrow>
      count_list
        (calls (snd (cleanup_times (Suc n) (fst (CursesApp_init LINES COLS w))
                       (snd (CursesApp_init LINES COLS w))))) Endwin = 1)"
proof -
  have a: "cleanup (fst (cleanup self w)) (snd (cleanup self w)) = cleanup self w"
    by (auto simp: cleanup_def Let_def)
  have b: "calls (snd (cleanup_times (Suc n) self w)) = calls w @ restore_calls"
    if "\<not> clean self"
    using that by (simp add: cleanup_times_not_clean do_calls_def del: cleanup_times.simps)
  have c: "snd (cleanup_times n self w) = w" if "clean self"
    using that by (simp add: cleanup_times_clean)
  have s: "Endwin \<notin> set setup_calls" "count_list restore_calls Endwin = 1"
    by (simp_all add: setup_calls_def init_colors_def restore_calls_def)
  have d: "count_list
        (calls (snd (cleanup_times (Suc n) (fst (CursesApp_init LINES COLS w))
                       (snd (CursesApp_init LINES COLS w))))) Endwin = 1"
    if "Endwin \<notin> set (calls w)"
  proof -
    obtain self0 w0 where i: "CursesApp_init LINES COLS w = (self0, w0)"
      by (cases "CursesApp_init LINES COLS w")
    from CursesApp_init_calls [OF i] show ?thesis
    proof
      assume "clean self0 \<and> calls w0 = calls w @ setup_calls @ restore_calls"
      with that s show ?thesis
        by (simp add: i cleanup_times_clean del: cleanup_times.simps)
    next
      assume "\<not> clean self0 \<and> (\<exists>cs. calls w0 = calls w @ setup_calls @ cs \<and> Endwin \<notin> set cs)"
      with that s show ?thesis
        by (auto simp: i cleanup_times_not_clean do_calls_def simp del: cleanup_times.simps)
    qed
  qed
  from a b c d show ?thesis by blast
qed

theorem cleanup_restores_once_witness:
  "\<not> clean (fst (CursesApp_init 24 80 \<lparr>queue = [], log_file = None, calls = []\<rparr>)) \<and>
   calls (snd (cleanup_times 3
                 (fst (CursesApp_init 24 80 \<lparr>queue = [], log_file = None, calls = []\<rparr>))
                 (snd (CursesApp_init 24 80 \<lparr>queue = [], log_file = None, calls = []\<rparr>)))) =
     calls (snd (CursesApp_init 24 80 \<lparr>queue = [], log_file = None, calls = []\<rparr>)) @
     restore_calls \<and>
   clean (fst (CursesApp_init 11 80 \<lparr>queue = [], log_file = None, calls = []\<rparr>)) \<and>
   snd (cleanup_times 2 (fst (CursesApp_init 11 80 \<lparr>queue = [], log_file = None, calls = []\<rparr>))
          (snd (CursesApp_init 11 80 \<lparr>queue = [], log_file = None, calls = []\<rparr>))) =
     snd (CursesApp_init 11 80 \<lparr>queue = [], log_file = None, calls = []\<rparr>) \<and>
   Endwin \<notin> set (calls \<lparr>queue = [], log_file = None, calls = []\<rparr>) \<and>
   count_list
     (calls (snd (cleanup_times 3
                    (fst (CursesApp_init 11 80 \<lparr>queue = [], log_file = None, calls = []\<rparr>))
                    (snd (CursesApp_init 11 80 \<lparr>queue = [], log_file = None, calls = []\<rparr>)))))
     Endwin = 1"
proof -
  let ?w = "\<lparr>queue = [], log_file = None, calls = []\<rparr>"
  have a: "\<not> clean (fst (CursesApp_init 24 80 ?w))" "clean (fst (CursesApp_init 11 80 ?w))"
    by (simp_all add: CursesApp_init_def Let_def min_lines_def min_cols_def
        max_border_lines_def max_border_cols_def cleanup_def)
  have e: "Endwin \<notin> set (calls ?w)" by simp
  have s: "Suc 2 = 3" by simp
  from a e
    cleanup_restores_once [of "fst (CursesApp_init 24 80 ?w)" "snd (CursesApp_init 24 80 ?w)" 2]
    cleanup_restores_once [of "fst (CursesApp_init 11 80 ?w)" "snd (CursesApp_init 11 80 ?w)" 2]
    cleanup_restores_once [of _ ?w 2 11 80]
  show ?thesis unfolding s by blast
qed


section \<open>Selecting: the cursor\<close>

text \<open>
  Claim C8. With no item, \<^verbatim>\<open>select\<close> reports \<^verbatim>\<open>Not enough items given to select from\<close>
  and returns \<^verbatim>\<open>None\<close>; it reads no key and makes no curses call.
\<close>

theorem select_empty_returns_none:
  "select prompt [] headings cursor_index validator es w =
     (Returned None, es, w\<lparr>queue := error ''Not enough items given to select from'' (queue w)\<rparr>) \<and>
   calls (snd (snd (select prompt [] headings cursor_index validator es w))) = calls w"
  by (simp add: select_def)

lemma select_iter_in_range:
  assumes "select_iter prompt items headings validator c es w = Continue c' es' w'"
    and "0 \<le> c" and "c < int (length items)"
  shows "0 \<le> c' \<and> c' < int (length items)"
proof (cases es)
  case Nil
  with assms(1) show ?thesis by (simp add: select_iter_def)
next
  case (Cons e es1)
  show ?thesis
  proof (cases e)
    case (Curses_error n)
    with Cons assms show ?thesis by (simp add: select_iter_def)
  next
    case (Key key)
    with Cons assms show ?thesis
      by (auto simp: select_iter_def Let_def
          split: if_splits sum.splits prod.splits list.splits event.splits)
  qed
qed

lemma select_cursors_in_range:
  "0 \<le> c \<Longrightarrow> c < int (length items) \<Longrightarrow>
   \<forall>c' \<in> set (select_cursors prompt items headings validator c es w).
     0 \<le> c' \<and> c' < int (length items)"
proof (induction prompt items headings validator c es w rule: select_cursors.induct)
  case (1 prompt items headings validator c es w)
  show ?case
  proof (cases "select_iter prompt items headings validator c es w")
    case (Continue c' es' w')
    with select_iter_in_range [OF Continue "1.prems"] "1.IH" [OF Continue] "1.prems"
    show ?thesis
      by (subst select_cursors.simps) simp
  next
    case (Done r es' w')
    with "1.prems" show ?thesis
      by (subst select_cursors.simps) simp
  qed
qed

lemma select_iter_down:
  "key = ''j'' \<or> key = ''KEY_DOWN'' \<Longrightarrow>
   select_iter prompt items headings validator c (Key key # es) w =
     Continue (min (max (c + 1) 0) (int (length items) - 1)) es
       (run_steps None (select_frame prompt items headings c (queue w)) w)"
  by (auto simp: select_iter_def Let_def)

lemma select_iter_up:
  "key = ''k'' \<or> key = ''KEY_UP'' \<Longrightarrow>
   select_iter prompt items headings validator c (Key key # es) w =
     Continue (min (max (c - 1) 0) (int (length items) - 1)) es
       (run_steps None (select_frame prompt items headings c (queue w)) w)"
  by (auto simp: select_iter_def Let_def)

lemma select_iter_quit:
  "select_iter prompt items headings validator c (Key ''q'' # es) w =
     Done (Returned None) es (run_steps None (select_frame prompt items headings c (queue w)) w)"
  by (simp add: select_iter_def Let_def)

lemma select_iter_confirm:
  "0 \<le> c \<Longrightarrow> c < int (length items) \<Longrightarrow>
   select_iter prompt items headings select_default_validator c (Key '';'' # es) w =
     Done (Returned (Some c)) es
       (run_steps None (select_frame prompt items headings c (queue w)) w)"
  by (simp add: select_iter_def Let_def py_index_def select_default_validator_def)

text \<open>
  Claim C7. For a list of items that is not empty and a cursor that starts inside it,
  the cursor is inside the list at the start of every pass of the loop of \<^verbatim>\<open>select\<close>,
  whatever the terminal sends. A down key moves it one row down, and leaves it where it
  is on the last row; an up key moves it one row up, and leaves it where it is on the
  first row.
\<close>

theorem select_cursor_navigation:
  assumes "items \<noteq> []" and "0 \<le> c" and "c < int (length items)"
  shows "(\<forall>c' \<in> set (select_cursors prompt items headings validator c es w).
            0 \<le> c' \<and> c' < int (length items)) \<and>
         (key = ''j'' \<or> key = ''KEY_DOWN'' \<longrightarrow>
            select_iter prompt items headings validator c (Key key # es) w =
              Continue (if c = int (length items) - 1 then c else c + 1) es
                (run_steps None (select_frame prompt items headings c (queue w)) w)) \<and>
         (key = ''k'' \<or> key = ''KEY_UP'' \<longrightarrow>
            select_iter prompt items headings validator c (Key key # es) w =
              Continue (if c = 0 then c else c - 1) es
                (run_steps None (select_frame prompt items headings c (queue w)) w))"
proof -
  have d: "min (max (c + 1) 0) (int (length items) - 1) =
      (if c = int (length items) - 1 then c else c + 1)"
    using assms by auto
  have u: "min (max (c - 1) 0) (int (length items) - 1) = (if c = 0 then c else c - 1)"
    using assms by auto
  from select_cursors_in_range [OF assms(2,3)] d u show ?thesis
    by (auto simp: select_iter_down select_iter_up)
qed

theorem select_cursor_navigation_witness:
  "[''a'', ''b'', ''c''] \<noteq> [] \<and> (0::int) \<le> 2 \<and> (2::int) < int (length [''a'', ''b'', ''c'']) \<and>
   list_all (\<lambda>c'. 0 \<le> c' \<and> c' < 3)
     (select_cursors ''p'' [''a'', ''b'', ''c''] None select_default_validator 2
        [Key ''j'', Key ''k'', Key ''k'', Key ''k'', Key ''x'']
        \<lparr>queue = [], log_file = None, calls = []\<rparr>) \<and>
   (\<exists>w'. select_iter ''p'' [''a'', ''b'', ''c''] None select_default_validator 2
           [Key ''j'', Key ''j'', Key ''k'', Key ''k'', Key ''k'', Key ''x'']
           \<lparr>queue = [], log_file = None, calls = []\<rparr> =
         Continue 2 [Key ''j'', Key ''k'', Key ''k'', Key ''k'', Key ''x''] w')"
proof -
  let ?items = "[''a'', ''b'', ''c'']"
  let ?w = "\<lparr>queue = [], log_file = None, calls = []\<rparr>"
  have a: "?items \<noteq> []" "(0::int) \<le> 2" "(2::int) < int (length ?items)" by simp_all
  from select_cursor_navigation [OF a, where prompt = "''p''" and headings = None
      and validator = select_default_validator
      and es = "[Key ''j'', Key ''k'', Key ''k'', Key ''k'', Key ''x'']" and w = ?w
      and key = "''j''"]
  show ?thesis using a by (simp add: list_all_iff)
qed

text \<open>Pressing down, or up, any number of times.\<close>

lemma select_cursors_Key_down:
  "select_cursors prompt items headings validator c (Key ''j'' # es) w =
     c # select_cursors prompt items headings validator
           (min (max (c + 1) 0) (int (length items) - 1)) es
           (run_steps None (select_frame prompt items headings c (queue w)) w)"
  by (subst select_cursors.simps) (simp add: select_iter_down)

lemma select_cursors_Key_up:
  "select_cursors prompt items headings validator c (Key ''k'' # es) w =
     c # select_cursors prompt items headings validator
           (min (max (c - 1) 0) (int (length items) - 1)) es
           (run_steps None (select_frame prompt items headings c (queue w)) w)"
  by (subst select_cursors.simps) (simp add: select_iter_up)

lemma select_cursors_Nil:
  "select_cursors prompt items headings validator c [] w = [c]"
  by (subst select_cursors.simps) (simp add: select_iter_def)

lemma repeated_down_clamps:
  "0 \<le> c \<Longrightarrow> c < int (length items) \<Longrightarrow>
   last (select_cursors prompt items headings validator c (replicate n (Key ''j'')) w) =
     min (c + int n) (int (length items) - 1)"
proof (induction n arbitrary: c w)
  case 0
  then show ?case by (simp add: select_cursors_Nil)
next
  case (Suc n)
  let ?c = "min (max (c + 1) 0) (int (length items) - 1)"
  have r: "0 \<le> ?c" "?c < int (length items)" using Suc.prems by auto
  have ne: "select_cursors prompt items headings validator ?c (replicate n (Key ''j'')) w' \<noteq> []" for w'
    by (subst select_cursors.simps) simp
  show ?case
    using Suc.IH [OF r] Suc.prems ne
    by (auto simp: select_cursors_Key_down)
qed

lemma repeated_up_clamps:
  "0 \<le> c \<Longrightarrow> c < int (length items) \<Longrightarrow>
   last (select_cursors prompt items headings validator c (replicate n (Key ''k'')) w) =
     max (c - int n) 0"
proof (induction n arbitrary: c w)
  case 0
  then show ?case by (simp add: select_cursors_Nil)
next
  case (Suc n)
  let ?c = "min (max (c - 1) 0) (int (length items) - 1)"
  have r: "0 \<le> ?c" "?c < int (length items)" using Suc.prems by auto
  have ne: "select_cursors prompt items headings validator ?c (replicate n (Key ''k'')) w' \<noteq> []" for w'
    by (subst select_cursors.simps) simp
  show ?case
    using Suc.IH [OF r] Suc.prems ne
    by (auto simp: select_cursors_Key_up)
qed


section \<open>The device row of the menu\<close>

lemma select_loop_down:
  "select_loop prompt items headings validator c (Key ''j'' # es) w =
     select_loop prompt items headings validator
       (min (max (c + 1) 0) (int (length items) - 1)) es
       (run_steps None (select_frame prompt items headings c (queue w)) w)"
  by (subst select_loop.simps) (simp add: select_iter_down)

lemma select_loop_quit:
  "select_loop prompt items headings validator c (Key ''q'' # es) w =
     (Returned None, es, run_steps None (select_frame prompt items headings c (queue w)) w)"
  by (subst select_loop.simps) (simp add: select_iter_quit)

lemma select_loop_confirm:
  "0 \<le> c \<Longrightarrow> c < int (length items) \<Longrightarrow>
   select_loop prompt items headings select_default_validator c (Key '';'' # es) w =
     (Returned (Some c), es,
      run_steps None (select_frame prompt items headings c (queue w)) w)"
  by (subst select_loop.simps) (simp add: select_iter_confirm)

text \<open>
  Claim C10. A field with the default validator accepts and stores every value,
  \<^verbatim>\<open>None\<close> included. In the menu, when the device row (row 2) is chosen and
  \<^verbatim>\<open>get_device\<close> returns \<^verbatim>\<open>None\<close>, as it does when the device dialog is cancelled, the
  device field holds \<^verbatim>\<open>None\<close> afterwards, whatever it held before, and \<^verbatim>\<open>get_str\<close> gives
  the empty string.
\<close>

theorem default_validator_stores_None:
  "(f_validator f = default_validator \<longrightarrow> Field_set f v q = (True, f\<lparr>f_value := v\<rparr>, q)) \<and>
   (f_validator (h (field_attr profile ''device'' R_device)) = default_validator \<and>
    select ''Select a field to change before installation:'' (menu_items profile h) None
      cursor_index select_default_validator es w = (Returned (Some 2), es1, w1) \<and>
    get_device (lsblk_devices e)
      (interactive_device_validator e
         (Field_get (h (field_attr profile ''min_device_bytes'' R_min_device_bytes))))
      es1 w1 = (Returned None, es2, w2) \<longrightarrow>
    (\<exists>h'. interactive_conf_pass e profile cursor_index es w h = (Next 2 profile, es2, w2, h') \<and>
          Field_get (h' (field_attr profile ''device'' R_device)) = PyNone \<and>
          Field_get_str (h' (field_attr profile ''device'' R_device)) = []))"
  by (auto simp: Field_set_def default_validator_def interactive_conf_pass_def device_row_def
      field_set_def optional_str_def Field_get_def Field_get_str_def)

theorem default_validator_stores_None_witness:
  "Field_get_str
     ((initial_heap(R_device := (initial_heap R_device)\<lparr>f_value := PyStr ''/dev/sda''\<rparr>)) R_device) =
     ''/dev/sda'' \<and>
   Field_set
     ((initial_heap(R_device := (initial_heap R_device)\<lparr>f_value := PyStr ''/dev/sda''\<rparr>)) R_device)
     PyNone [] =
     (True,
      ((initial_heap(R_device := (initial_heap R_device)\<lparr>f_value := PyStr ''/dev/sda''\<rparr>)) R_device)
        \<lparr>f_value := PyNone\<rparr>, []) \<and>
   (\<exists>w' h'.
      interactive_conf_pass
        \<lparr>lsblk_devices = Some (''PATH SIZE'' @ [CHR 0x0A] @ ''/dev/sda 20G''), timezones = None,
         interactive_device_validator = (\<lambda>_. select_default_validator)\<rparr>
        Profile_init 0 [Key ''j'', Key ''j'', Key '';'', Key ''q'']
        \<lparr>queue = [], log_file = None, calls = []\<rparr>
        (initial_heap(R_device := (initial_heap R_device)\<lparr>f_value := PyStr ''/dev/sda''\<rparr>)) =
        (Next 2 Profile_init, [], w', h') \<and>
      Field_get_str (h' R_device) = [])"
proof -
  let ?h = "initial_heap(R_device := (initial_heap R_device)\<lparr>f_value := PyStr ''/dev/sda''\<rparr>)"
  let ?w = "\<lparr>queue = [], log_file = None, calls = []\<rparr>"
  let ?e = "\<lparr>lsblk_devices = Some (''PATH SIZE'' @ [CHR 0x0A] @ ''/dev/sda 20G''), timezones = None,
         interactive_device_validator = (\<lambda>_. select_default_validator)\<rparr>"
  have fa: "field_attr Profile_init key r = r" for key r
    by (simp add: field_attr_def Profile_init_def)
  have g: "Field_get_str (?h R_device) = ''/dev/sda''"
    by (simp add: Field_get_str_def)
  have v: "f_validator (?h (field_attr Profile_init ''device'' R_device)) = default_validator"
    by (simp add: fa Field_init_def)
  have len: "length (menu_items Profile_init ?h) = 11"
    by (simp add: menu_items_def)
  have "\<exists>w1. select prompt items None 0 select_default_validator
      [Key ''j'', Key ''j'', Key '';'', Key ''q''] ?w = (Returned (Some 2), [Key ''q''], w1)"
    if "length items = 11" for prompt items
  proof -
    from that have "items \<noteq> []" by auto
    with that show ?thesis
      by (simp add: select_def select_loop_down select_loop_confirm)
  qed
  from this [OF len] obtain w1 where s: "select ''Select a field to change before installation:''
      (menu_items Profile_init ?h) None 0 select_default_validator
      [Key ''j'', Key ''j'', Key '';'', Key ''q''] ?w = (Returned (Some 2), [Key ''q''], w1)"
    by blast
  have sl: "splitlines (''PATH SIZE'' @ [CHR 0x0A] @ ''/dev/sda 20G'') = [''PATH SIZE'', ''/dev/sda 20G'']"
    by (simp add: splitlines_def ch_islinebreak_def code_in_def)
  obtain w2 where d: "get_device (lsblk_devices ?e)
      (interactive_device_validator ?e
         (Field_get (?h (field_attr Profile_init ''min_device_bytes'' R_min_device_bytes))))
      [Key ''q''] w1 = (Returned None, [], w2)"
    by (simp add: get_device_def sl select_def select_loop_quit del: append.simps)
  have v': "f_validator (?h R_device) = default_validator"
    by (simp add: Field_init_def)
  from default_validator_stores_None [where f = "?h R_device" and v = PyNone and q = "[]" and h = ?h
      and profile = Profile_init and e = ?e and cursor_index = 0
      and es = "[Key ''j'', Key ''j'', Key '';'', Key ''q'']" and w = ?w and ?es1.0 = "[Key ''q'']"
      and ?w1.0 = w1 and ?es2.0 = "[]" and ?w2.0 = w2] v v' s d
  obtain h' where
    "interactive_conf_pass ?e Profile_init 0 [Key ''j'', Key ''j'', Key '';'', Key ''q''] ?w ?h =
       (Next 2 Profile_init, [], w2, h')"
    "Field_get_str (h' (field_attr Profile_init ''device'' R_device)) = []"
    "Field_set (?h R_device) PyNone [] = (True, (?h R_device)\<lparr>f_value := PyNone\<rparr>, [])"
    by blast
  with g show ?thesis unfolding fa by blast
qed

end
